theory Spec2Isabelle
  imports Main "HOL-Library.AList"
begin

section \<open>Exceptions\<close>

text \<open>
  The exception classes that \<^verbatim>\<open>flask_tryton.py\<close> names or can raise. A Python
  \<^verbatim>\<open>raise\<close> is the \<open>Inl\<close> branch of a sum; the three Tryton domain errors and
  werkzeug's \<^verbatim>\<open>BadRequest\<close> carry their message. \<open>OtherError\<close> stands for any
  other exception object, told apart by a number (its identity).
\<close>

datatype exn =
    DatabaseOperationalError
  | UserError string
  | UserWarning string
  | ConcurrencyException string
  | BadRequest string
  | NameError string
  | AttributeError string
  | TypeError string
  | IndexError
  | OtherError nat

section \<open>Deferred record references and the URL converters\<close>

text \<open>
  \<^verbatim>\<open>_RecordsProxy\<close> holds a model name and a list of ids; \<^verbatim>\<open>_RecordProxy\<close> is its
  subclass. An object of either class has the same two fields, and the constructor tells
  the class.
\<close>

datatype proxy =
    RecordsProxy (model: string) (ids: "int list")
  | RecordProxy (model: string) (ids: "int list")

text \<open>\<^verbatim>\<open>_RecordsProxy.__init__(model, ids)\<close> stores \<^verbatim>\<open>list(ids)\<close>.\<close>

definition RecordsProxy_init :: "string \<Rightarrow> int list \<Rightarrow> proxy" where
  "RecordsProxy_init m is = RecordsProxy m is"

text \<open>\<^verbatim>\<open>_RecordProxy.__init__(model, id)\<close> calls the parent's with \<^verbatim>\<open>[id]\<close>.\<close>

definition RecordProxy_init :: "string \<Rightarrow> int \<Rightarrow> proxy" where
  "RecordProxy_init m i = RecordProxy m [i]"

text \<open>
  \<^verbatim>\<open>int(value)\<close> on a proxy. Only \<^verbatim>\<open>_RecordProxy\<close> defines \<^verbatim>\<open>__int__\<close>, as
  \<^verbatim>\<open>self.ids[0]\<close> (an IndexError on an empty list); on a \<^verbatim>\<open>_RecordsProxy\<close> that is not a
  \<^verbatim>\<open>_RecordProxy\<close>, \<^verbatim>\<open>int\<close> raises a TypeError.
\<close>

fun proxy_int :: "proxy \<Rightarrow> exn + int" where
  "proxy_int (RecordProxy m is) = (case is of [] \<Rightarrow> Inl IndexError | i # _ \<Rightarrow> Inr i)"
| "proxy_int (RecordsProxy m is) = Inl (TypeError ''int'')"

text \<open>\<^verbatim>\<open>_RecordsProxy.__iter__\<close>, which \<^verbatim>\<open>_RecordProxy\<close> inherits: the ids in order.\<close>

definition proxy_iter :: "proxy \<Rightarrow> int list" where
  "proxy_iter p = ids p"

subsection \<open>Decimal text\<close>

text \<open>
  A text is a list of 8-bit characters, and the decimal digits among them are \<^verbatim>\<open>0\<close> to
  \<^verbatim>\<open>9\<close>. The digits of other scripts, which \<^verbatim>\<open>\d\<close> and \<^verbatim>\<open>int\<close> accept as well in a
  Python text, have no character here.
\<close>

definition isdigit :: "char \<Rightarrow> bool" where
  "isdigit c = (c \<in> set ''0123456789'')"

definition digit_val :: "char \<Rightarrow> nat" where
  "digit_val c = of_char c - 48"

definition digit_char :: "nat \<Rightarrow> char" where
  "digit_char d = ''0123456789'' ! d"

text \<open>
  \<^verbatim>\<open>int(value)\<close> on a text of decimal digits, the only texts that the converters'
  regular expressions let through.
\<close>

definition int_of_digits :: "string \<Rightarrow> int" where
  "int_of_digits s = int (foldl (\<lambda>a c. 10 * a + digit_val c) 0 s)"

fun str_nat :: "nat \<Rightarrow> string" where
  "str_nat n = (if n < 10 then [digit_char n] else str_nat (n div 10) @ [digit_char (n mod 10)])"

declare str_nat.simps [simp del]

text \<open>\<^verbatim>\<open>str(i)\<close> for a Python int.\<close>

definition py_str :: "int \<Rightarrow> string" where
  "py_str i = (if i < 0 then CHR ''-'' # str_nat (nat (- i)) else str_nat (nat i))"

text \<open>\<^verbatim>\<open>value.split(',')\<close>: an empty text splits to one empty piece.\<close>

fun split :: "char \<Rightarrow> string \<Rightarrow> string list" where
  "split sep [] = [[]]"
| "split sep (c # cs) =
     (if c = sep then [] # split sep cs
      else (case split sep cs of [] \<Rightarrow> [[c]] | p # ps \<Rightarrow> (c # p) # ps))"

text \<open>\<^verbatim>\<open>sep.join(pieces)\<close>.\<close>

fun join :: "string \<Rightarrow> string list \<Rightarrow> string" where
  "join sep [] = []"
| "join sep [p] = p"
| "join sep (p # q # ps) = p @ sep @ join sep (q # ps)"

subsection \<open>RecordConverter and RecordsConverter\<close>

text \<open>
  The router calls \<^verbatim>\<open>to_python\<close> only on a path segment that matches the converter's
  \<^verbatim>\<open>regex\<close> as a whole: \<^verbatim>\<open>\d+\<close> for \<^verbatim>\<open>record\<close>, \<^verbatim>\<open>\d+(,\d+)*\<close> for \<^verbatim>\<open>records\<close>.
  \<open>None\<close> is a segment that does not match (the route is not taken).
\<close>

definition RecordConverter_regex :: "string \<Rightarrow> bool" where
  "RecordConverter_regex value = (value \<noteq> [] \<and> list_all isdigit value)"

definition RecordsConverter_regex :: "string \<Rightarrow> bool" where
  "RecordsConverter_regex value = list_all RecordConverter_regex (split CHR '','' value)"

definition RecordConverter_to_python :: "string \<Rightarrow> string \<Rightarrow> proxy option" where
  "RecordConverter_to_python m value =
     (if RecordConverter_regex value then Some (RecordProxy_init m (int_of_digits value))
      else None)"

text \<open>\<^verbatim>\<open>str(int(value))\<close>.\<close>

definition RecordConverter_to_url :: "proxy \<Rightarrow> exn + string" where
  "RecordConverter_to_url value =
     (case proxy_int value of Inl e \<Rightarrow> Inl e | Inr i \<Rightarrow> Inr (py_str i))"

definition RecordsConverter_to_python :: "string \<Rightarrow> string \<Rightarrow> proxy option" where
  "RecordsConverter_to_python m value =
     (if RecordsConverter_regex value
      then Some (RecordsProxy_init m (map int_of_digits (split CHR '','' value)))
      else None)"

text \<open>\<^verbatim>\<open>','.join(map(str, map(int, value)))\<close>: \<^verbatim>\<open>int\<close> of an id is the id.\<close>

definition RecordsConverter_to_url :: "proxy \<Rightarrow> string" where
  "RecordsConverter_to_url value = join '','' (map py_str (proxy_iter value))"

section \<open>Requests, decorator arguments and the transaction context\<close>

text \<open>
  What the wrapper reads of flask's \<^verbatim>\<open>request\<close>. Outside a request the proxy is falsy:
  the current request is an \<open>option\<close>.
\<close>

record request =
  "method" :: string
  remote_addr :: "string option"
  http_host :: "string option"
  scheme :: string
  is_secure :: bool

text \<open>
  A context is a Python dict with string keys, kept as an association list in insertion
  order. The values that occur are \<^verbatim>\<open>None\<close>, booleans, ints, strings and nested dicts.
\<close>

datatype cval =
    VNone
  | VBool bool
  | VInt int
  | VStr string
  | VDict "(string \<times> cval) list"

type_synonym ctx = "(string \<times> cval) list"

text \<open>\<^verbatim>\<open>d.update(other)\<close>: every item of \<open>other\<close> is stored in \<open>d\<close>, in order.\<close>

definition dict_update :: "ctx \<Rightarrow> ctx \<Rightarrow> ctx" where
  "dict_update d other = fold (\<lambda>(k, v). AList.update k v) other d"

text \<open>
  \<^verbatim>\<open>readonly\<close>, \<^verbatim>\<open>user\<close> and \<^verbatim>\<open>context\<close> are each \<^verbatim>\<open>None\<close>, a plain value or a
  callable without arguments; \<^verbatim>\<open>get_value\<close> calls a callable and returns anything else.
\<close>

datatype 'a valprov = Literal 'a | Provider "unit \<Rightarrow> 'a"

fun get_value :: "'a valprov \<Rightarrow> 'a" where
  "get_value (Provider f) = f ()"
| "get_value (Literal v) = v"

record dargs =
  readonly :: "bool valprov option"
  user :: "int valprov option"
  "context" :: "ctx valprov option"

text \<open>
  \<^verbatim>\<open>Tryton._readonly\<close>:
  \<^verbatim>\<open>not (request and request.method in ('PUT', 'POST', 'DELETE', 'PATCH'))\<close>.
\<close>

definition Tryton_readonly :: "request option \<Rightarrow> bool" where
  "Tryton_readonly rq =
     (\<not> (case rq of None \<Rightarrow> False
          | Some r \<Rightarrow> method r \<in> set [''PUT'', ''POST'', ''DELETE'', ''PATCH'']))"

text \<open>Lines 203 to 206: \<^verbatim>\<open>is_readonly\<close>.\<close>

definition is_readonly :: "dargs \<Rightarrow> request option \<Rightarrow> bool" where
  "is_readonly a rq =
     (case readonly a of
        None \<Rightarrow> get_value (Provider (\<lambda>_. Tryton_readonly rq))
      | Some v \<Rightarrow> get_value v)"

text \<open>Lines 197 to 201: \<^verbatim>\<open>transaction_user\<close>, from \<^verbatim>\<open>TRYTON_USER\<close> when \<^verbatim>\<open>user\<close> is \<^verbatim>\<open>None\<close>.\<close>

definition transaction_user :: "dargs \<Rightarrow> int \<Rightarrow> int" where
  "transaction_user a tryton_user =
     (case user a of None \<Rightarrow> get_value (Literal tryton_user) | Some v \<Rightarrow> get_value v)"

text \<open>The dict built from the request on lines 219 to 222.\<close>

definition opt_str :: "string option \<Rightarrow> cval" where
  "opt_str s = (case s of None \<Rightarrow> VNone | Some t \<Rightarrow> VStr t)"

definition request_info :: "request \<Rightarrow> ctx" where
  "request_info r =
     [(''remote_addr'', opt_str (remote_addr r)),
      (''http_host'', opt_str (http_host r)),
      (''scheme'', VStr (scheme r)),
      (''is_secure'', VBool (is_secure r))]"

text \<open>
  Lines 218 to 223:
  \<^verbatim>\<open>transaction_context.setdefault('_request', {}).update({...} if request else {})\<close>.
  \<^verbatim>\<open>setdefault\<close> returns the entry that is there, or stores and returns an empty dict; the
  \<^verbatim>\<open>update\<close> then needs that entry to be a dict (any other value has no \<^verbatim>\<open>update\<close>).
\<close>

definition merge_request :: "request option \<Rightarrow> ctx \<Rightarrow> exn + ctx" where
  "merge_request rq c =
     (let info = (case rq of Some r \<Rightarrow> request_info r | None \<Rightarrow> []) in
      case map_of c ''_request'' of
        None \<Rightarrow> Inr (AList.update ''_request'' (VDict (dict_update [] info)) c)
      | Some (VDict d) \<Rightarrow> Inr (AList.update ''_request'' (VDict (dict_update d info)) c)
      | Some _ \<Rightarrow> Inl (AttributeError ''update''))"

section \<open>The ORM runtime as the wrapper sees it\<close>

text \<open>
  The ambient state the code reads and changes: the attributes of the current
  \<^verbatim>\<open>Transaction()\<close> (\<^verbatim>\<open>user\<close>, \<^verbatim>\<open>readonly\<close>, whether it has a \<^verbatim>\<open>cursor\<close>, its \<^verbatim>\<open>tasks\<close>
  queue), and three recorders: how many \<^verbatim>\<open>cursor.commit()\<close> calls returned, the task
  ids handed to \<^verbatim>\<open>run_task\<close> in call order, and how often the handler body ran.
\<close>

record world =
  tx_user :: "int option"
  tx_readonly :: bool
  tx_has_cursor :: bool
  tx_tasks :: "nat list"
  commits :: nat
  submitted :: "nat list"
  runs :: nat

text \<open>
  What is fixed during one call: the configuration, the current request, and the
  behaviour of the code outside this file. \<open>handler n\<close> is the \<open>n\<close>-th execution (from 0) of
  \<^verbatim>\<open>func(*map(instanciate, args), ...)\<close>: it raises or returns, and appends task ids to
  \<^verbatim>\<open>transaction.tasks\<close>. \<open>commit_exn n\<close> is what \<^verbatim>\<open>cursor.commit()\<close> raises after the
  \<open>n\<close>-th execution, and \<open>run_task_exn t\<close> what \<^verbatim>\<open>run_task\<close> raises on task \<open>t\<close>.
\<close>

record 'r env =
  testing_flask :: bool
  trytond_pre_5_1 :: bool
  database_retry :: int
  TRYTON_USER :: int
  context_callback :: "(unit \<Rightarrow> ctx) option"
  current_request :: "request option"
  handler :: "nat \<Rightarrow> (exn + 'r) \<times> nat list"
  commit_exn :: "nat \<Rightarrow> exn option"
  run_task_exn :: "nat \<Rightarrow> exn option"

subsection \<open>conditional\_transaction\_for\_tests\<close>

text \<open>
  \<^verbatim>\<open>not config.get('web', 'testing_flask') or not Transaction().user\<close>: a user that is
  \<^verbatim>\<open>None\<close> or 0 is falsy.
\<close>

definition need_new_transaction :: "'r env \<Rightarrow> world \<Rightarrow> bool" where
  "need_new_transaction env w =
     (\<not> testing_flask env \<or> (case tx_user w of None \<Rightarrow> True | Some u \<Rightarrow> u = 0))"

text \<open>
  Entering the scope. The function takes \<^verbatim>\<open>*args, **kwargs\<close> and uses none of them:
  the user, the \<^verbatim>\<open>readonly\<close> flag and the context that the callers pass are arguments
  here and do not occur on the right. When a new transaction is needed it evaluates
  \<^verbatim>\<open>Transaction().start(database, user, readonly=True)\<close>, where \<^verbatim>\<open>database\<close> is a name
  bound neither in the function nor in the module: a NameError. Otherwise it yields the
  current transaction, and leaving the scope does nothing.
\<close>

definition conditional_transaction_for_tests ::
  "'r env \<Rightarrow> world \<Rightarrow> int \<Rightarrow> bool option \<Rightarrow> ctx option \<Rightarrow> exn + unit" where
  "conditional_transaction_for_tests env w usr ro c =
     (if need_new_transaction env w then Inl (NameError ''database'') else Inr ())"

subsection \<open>The wrapper of Tryton.transaction\<close>

text \<open>
  Lines 208 to 216: the context of the callback and of the \<^verbatim>\<open>context\<close> argument. A
  callback and a callable are truthy, a dict is truthy when it is not empty.
\<close>

definition context_truthy :: "ctx valprov option \<Rightarrow> bool" where
  "context_truthy c =
     (case c of None \<Rightarrow> False | Some (Literal d) \<Rightarrow> d \<noteq> [] | Some (Provider f) \<Rightarrow> True)"

definition user_context :: "dargs \<Rightarrow> 'r env \<Rightarrow> world \<Rightarrow> exn + ctx" where
  "user_context a env w =
     (if context_callback env \<noteq> None \<or> context_truthy (context a) then
        (case conditional_transaction_for_tests env w
                (transaction_user a (TRYTON_USER env)) (Some True) None of
           Inl e \<Rightarrow> Inl e
         | Inr _ \<Rightarrow>
             Inr (dict_update
                   (case context_callback env of Some cb \<Rightarrow> cb () | None \<Rightarrow> [])
                   (case context a of None \<Rightarrow> [] | Some v \<Rightarrow> get_value v)))
      else Inr [])"

text \<open>Lines 208 to 223: the \<^verbatim>\<open>transaction_context\<close> passed to the scope.\<close>

definition transaction_context :: "dargs \<Rightarrow> 'r env \<Rightarrow> world \<Rightarrow> exn + ctx" where
  "transaction_context a env w =
     (case user_context a env w of
        Inl e \<Rightarrow> Inl e
      | Inr c \<Rightarrow> merge_request (current_request env) c)"

text \<open>
  The \<^verbatim>\<open>except\<close> clauses of lines 237 to 245: a DatabaseOperationalError is raised again,
  a UserError, UserWarning or ConcurrencyException becomes \<^verbatim>\<open>BadRequest(e.message)\<close>, any
  other exception is raised again.
\<close>

fun reraise :: "exn \<Rightarrow> exn" where
  "reraise DatabaseOperationalError = DatabaseOperationalError"
| "reraise (UserError m) = BadRequest m"
| "reraise (UserWarning m) = BadRequest m"
| "reraise (ConcurrencyException m) = BadRequest m"
| "reraise e = e"

text \<open>
  Lines 230 to 245: the handler runs; when it returns and the transaction has a
  \<^verbatim>\<open>cursor\<close> and is not read-only, \<^verbatim>\<open>cursor.commit()\<close> is called. What either raises goes
  through the \<^verbatim>\<open>except\<close> clauses.
\<close>

definition try_block :: "'r env \<Rightarrow> bool \<Rightarrow> world \<Rightarrow> (exn + 'r) \<times> world" where
  "try_block env ro w =
     (let n = runs w;
          w1 = w\<lparr>runs := n + 1, tx_tasks := tx_tasks w @ snd (handler env n)\<rparr>
      in case fst (handler env n) of
           Inl e \<Rightarrow> (Inl (reraise e), w1)
         | Inr r \<Rightarrow>
             if tx_has_cursor w1 \<and> \<not> ro then
               (case commit_exn env n of
                  Some e \<Rightarrow> (Inl (reraise e), w1)
                | None \<Rightarrow> (Inr r, w1\<lparr>commits := commits w1 + 1\<rparr>))
             else (Inr r, w1))"

text \<open>
  Lines 249 to 251: \<^verbatim>\<open>while transaction.tasks: task_id = transaction.tasks.pop();
  run_task(tryton.pool, task_id)\<close>. \<^verbatim>\<open>pop()\<close> takes the last element of the list. The
  result is what \<^verbatim>\<open>run_task\<close> raised if it did, the queue that is left and the ids handed
  to \<^verbatim>\<open>run_task\<close> so far.
\<close>

function drain :: "(nat \<Rightarrow> exn option) \<Rightarrow> nat list \<Rightarrow> nat list \<Rightarrow> exn option \<times> nat list \<times> nat list" where
  "drain rt tasks sub =
     (if tasks = [] then (None, tasks, sub)
      else (case rt (last tasks) of
              Some e \<Rightarrow> (Some e, butlast tasks, sub @ [last tasks])
            | None \<Rightarrow> drain rt (butlast tasks) (sub @ [last tasks])))"
  by pat_completeness auto
termination
  by (relation "measure (\<lambda>(rt, tasks, sub). length tasks)") auto

declare drain.simps [simp del]

text \<open>
  The whole wrapper (lines 190 to 252). \<^verbatim>\<open>Cache.clean\<close> and \<^verbatim>\<open>Cache.resets\<close> change
  nothing that is recorded here; the scope around \<^verbatim>\<open>Cache.clean\<close> is entered all the same.
\<close>

definition wrapper :: "dargs \<Rightarrow> 'r env \<Rightarrow> world \<Rightarrow> (exn + 'r) \<times> world" where
  "wrapper a env w =
     (case (if trytond_pre_5_1 env then conditional_transaction_for_tests env w 0 None None
            else Inr ()) of
        Inl e \<Rightarrow> (Inl e, w)
      | Inr _ \<Rightarrow>
     (case transaction_context a env w of
        Inl e \<Rightarrow> (Inl e, w)
      | Inr c \<Rightarrow>
     (case conditional_transaction_for_tests env w (transaction_user a (TRYTON_USER env))
             (Some (is_readonly a (current_request env))) (Some c) of
        Inl e \<Rightarrow> (Inl e, w)
      | Inr _ \<Rightarrow>
     (case try_block env (is_readonly a (current_request env)) w of
        (Inl e, w1) \<Rightarrow> (Inl e, w1)
      | (Inr r, w1) \<Rightarrow>
     (case drain (run_task_exn env) (tx_tasks w1) (submitted w1) of
        (Some e, ts, sub) \<Rightarrow> (Inl e, w1\<lparr>tx_tasks := ts, submitted := sub\<rparr>)
      | (None, ts, sub) \<Rightarrow> (Inr r, w1\<lparr>tx_tasks := ts, submitted := sub\<rparr>))))))"

subsection \<open>retry\_transaction\<close>

text \<open>
  Lines 61 to 67, for \<^verbatim>\<open>count\<close> counting down to 0: the call's result is returned; a
  DatabaseOperationalError is swallowed and the call repeated when
  \<^verbatim>\<open>count and not Transaction().readonly\<close>, and any exception is raised otherwise.
\<close>

fun retry_loop :: "(world \<Rightarrow> (exn + 'r) \<times> world) \<Rightarrow> nat \<Rightarrow> world \<Rightarrow> (exn + 'r) \<times> world" where
  "retry_loop f 0 w = f w"
| "retry_loop f (Suc count) w =
     (case f w of
        (Inr r, w') \<Rightarrow> (Inr r, w')
      | (Inl e, w') \<Rightarrow>
          if e = DatabaseOperationalError \<and> \<not> tx_readonly w' then retry_loop f count w'
          else (Inl e, w'))"

text \<open>
  \<^verbatim>\<open>range(retry, -1, -1)\<close> is empty for a negative \<^verbatim>\<open>retry\<close>: the loop body never runs
  and the function returns \<^verbatim>\<open>None\<close>. A returned result \<open>r\<close> is \<open>Some r\<close>.
\<close>

definition retry_transaction ::
  "(world \<Rightarrow> (exn + 'r) \<times> world) \<Rightarrow> int \<Rightarrow> world \<Rightarrow> (exn + 'r option) \<times> world" where
  "retry_transaction f retry w =
     (if retry < 0 then (Inr None, w)
      else (case retry_loop f (nat retry) w of
              (Inl e, w') \<Rightarrow> (Inl e, w')
            | (Inr r, w') \<Rightarrow> (Inr (Some r), w')))"

text \<open>The decorated handler: \<^verbatim>\<open>retry_transaction\<close> around the wrapper.\<close>

definition transaction :: "dargs \<Rightarrow> 'r env \<Rightarrow> world \<Rightarrow> (exn + 'r option) \<times> world" where
  "transaction a env w = retry_transaction (wrapper a env) (database_retry env) w"

section \<open>Example inputs\<close>

text \<open>
  A POST request, a started test transaction (user 1, read-write, with a cursor, nothing
  queued, nothing recorded), a decorator without arguments and one with
  \<^verbatim>\<open>readonly=False\<close> and \<^verbatim>\<open>readonly=True\<close>, an application in test mode with one retry,
  and a few handlers.
\<close>

definition post_request :: request where
  "post_request =
     \<lparr>method = ''POST'', remote_addr = Some ''10.0.0.1'', http_host = Some ''example.org'',
      scheme = ''https'', is_secure = True\<rparr>"

definition test_world :: world where
  "test_world =
     \<lparr>tx_user = Some 1, tx_readonly = False, tx_has_cursor = True, tx_tasks = [],
      commits = 0, submitted = [], runs = 0\<rparr>"

definition no_args :: dargs where
  "no_args = \<lparr>readonly = None, user = None, context = None\<rparr>"

definition returns_7 :: "nat \<Rightarrow> (exn + nat) \<times> nat list" where
  "returns_7 n = (Inr 7, [])"

definition test_env :: "nat env" where
  "test_env =
     \<lparr>testing_flask = True, trytond_pre_5_1 = False, database_retry = 1, TRYTON_USER = 1,
      context_callback = None, current_request = None, handler = returns_7,
      commit_exn = (\<lambda>n. None), run_task_exn = (\<lambda>t. None)\<rparr>"

definition queues_1_2 :: "nat \<Rightarrow> (exn + nat) \<times> nat list" where
  "queues_1_2 n = (Inr 7, [1, 2])"

definition raises :: "exn \<Rightarrow> nat \<Rightarrow> (exn + nat) \<times> nat list" where
  "raises e n = (Inl e, [5])"

definition conflicts_then_7 :: "nat \<Rightarrow> nat \<Rightarrow> (exn + nat) \<times> nat list" where
  "conflicts_then_7 k n = (if n < k then (Inl DatabaseOperationalError, []) else (Inr 7, []))"

definition conflict_then_queue :: "nat \<Rightarrow> (exn + nat) \<times> nat list" where
  "conflict_then_queue n = (if n = 0 then (Inl DatabaseOperationalError, [1]) else (Inr 7, [2, 3]))"

definition read_write :: dargs where
  "read_write = \<lparr>readonly = Some (Literal False), user = None, context = None\<rparr>"

definition read_only :: dargs where
  "read_only = \<lparr>readonly = Some (Literal True), user = None, context = None\<rparr>"

section \<open>The task queue\<close>

lemma drain_step:
  "drain rt (ts @ [t]) sub =
     (case rt t of Some e \<Rightarrow> (Some e, ts, sub @ [t]) | None \<Rightarrow> drain rt ts (sub @ [t]))"
  by (subst drain.simps) (simp split: option.split)

lemma drain_Nil: "drain rt [] sub = (None, [], sub)"
  by (subst drain.simps) simp

lemma drain_all:
  "\<forall>t \<in> set ts. rt t = None \<Longrightarrow> drain rt ts sub = (None, [], sub @ rev ts)"
proof (induction ts arbitrary: sub rule: rev_induct)
  case Nil
  show ?case by (simp add: drain_Nil)
next
  case (snoc t ts)
  then show ?case by (simp add: drain_step)
qed

lemma drain_None:
  "drain rt ts sub = (None, ts', sub') \<Longrightarrow> ts' = [] \<and> sub' = sub @ rev ts"
proof (induction ts arbitrary: sub rule: rev_induct)
  case Nil
  then show ?case by (simp add: drain_Nil)
next
  case (snoc t ts)
  show ?case
  proof (cases "rt t")
    case None
    with snoc.prems have "drain rt ts (sub @ [t]) = (None, ts', sub')"
      by (simp add: drain_step)
    from snoc.IH [OF this] show ?thesis by auto
  next
    case (Some e)
    with snoc.prems show ?thesis by (auto simp: drain_step)
  qed
qed

lemma drain_Some:
  "drain rt ts sub = (Some e, ts', sub') \<Longrightarrow> \<exists>t. rt t = Some e"
proof (induction ts arbitrary: sub rule: rev_induct)
  case Nil
  then show ?case by (simp add: drain_Nil)
next
  case (snoc t ts)
  show ?case
  proof (cases "rt t")
    case None
    with snoc.prems have "drain rt ts (sub @ [t]) = (Some e, ts', sub')"
      by (simp add: drain_step)
    from snoc.IH [OF this] show ?thesis .
  next
    case (Some e')
    with snoc.prems show ?thesis by (auto simp: drain_step)
  qed
qed

section \<open>One call of the wrapper\<close>

lemma try_block_frame:
  "tx_user (snd (try_block env ro w)) = tx_user w
   \<and> tx_readonly (snd (try_block env ro w)) = tx_readonly w
   \<and> tx_has_cursor (snd (try_block env ro w)) = tx_has_cursor w
   \<and> submitted (snd (try_block env ro w)) = submitted w
   \<and> runs (snd (try_block env ro w)) = runs w + 1
   \<and> tx_tasks (snd (try_block env ro w)) = tx_tasks w @ snd (handler env (runs w))"
  by (simp add: try_block_def Let_def split: sum.split option.split)

lemma try_block_raises:
  "fst (handler env (runs w)) = Inl e \<Longrightarrow>
   try_block env ro w =
     (Inl (reraise e), w\<lparr>runs := runs w + 1, tx_tasks := tx_tasks w @ snd (handler env (runs w))\<rparr>)"
  by (simp add: try_block_def Let_def)

lemma try_block_Inr_commits:
  "fst (try_block env ro w) = Inr r \<Longrightarrow>
   commits (snd (try_block env ro w)) = commits w + (if tx_has_cursor w \<and> \<not> ro then 1 else 0)"
  by (simp add: try_block_def Let_def split: sum.splits option.splits if_splits)

lemma try_block_returns:
  "fst (handler env (runs w)) = Inr r \<Longrightarrow> (tx_has_cursor w \<and> \<not> ro \<longrightarrow> commit_exn env (runs w) = None) \<Longrightarrow>
   fst (try_block env ro w) = Inr r"
  by (simp add: try_block_def Let_def split: sum.splits option.splits if_splits)

lemma try_block_fails:
  assumes "(\<exists>e. fst (handler env (runs w)) = Inl e)
      \<or> (tx_has_cursor w \<and> \<not> ro \<and> (\<exists>e. commit_exn env (runs w) = Some e))"
  shows "\<exists>e. fst (try_block env ro w) = Inl e"
  using assms by (auto simp: try_block_def Let_def split: sum.splits option.splits)

text \<open>The wrapper once the scope is entered and the context is built.\<close>

lemma wrapper_entered:
  assumes "\<not> need_new_transaction env w" and "transaction_context a env w = Inr c"
  shows "wrapper a env w =
     (case try_block env (is_readonly a (current_request env)) w of
        (Inl e, w1) \<Rightarrow> (Inl e, w1)
      | (Inr r, w1) \<Rightarrow>
     (case drain (run_task_exn env) (tx_tasks w1) (submitted w1) of
        (Some e, ts, sub) \<Rightarrow> (Inl e, w1\<lparr>tx_tasks := ts, submitted := sub\<rparr>)
      | (None, ts, sub) \<Rightarrow> (Inr r, w1\<lparr>tx_tasks := ts, submitted := sub\<rparr>)))"
  using assms by (simp add: wrapper_def conditional_transaction_for_tests_def)

lemma wrapper_not_entered:
  assumes "need_new_transaction env w \<or> (\<exists>e. transaction_context a env w = Inl e)"
  shows "snd (wrapper a env w) = w \<and> (\<exists>e. fst (wrapper a env w) = Inl e)"
  using assms by (auto simp add: wrapper_def conditional_transaction_for_tests_def split: sum.splits)

lemma wrapper_handler_raises:
  assumes "\<not> need_new_transaction env w" and "transaction_context a env w = Inr c"
    and "fst (handler env (runs w)) = Inl e"
  shows "wrapper a env w =
     (Inl (reraise e), w\<lparr>runs := runs w + 1, tx_tasks := tx_tasks w @ snd (handler env (runs w))\<rparr>)"
  by (simp add: wrapper_entered [OF assms(1,2)] try_block_raises [OF assms(3)])

lemma wrapper_frame:
  "tx_user (snd (wrapper a env w)) = tx_user w
   \<and> tx_readonly (snd (wrapper a env w)) = tx_readonly w
   \<and> tx_has_cursor (snd (wrapper a env w)) = tx_has_cursor w"
proof -
  obtain o1 w1 where tb: "try_block env (is_readonly a (current_request env)) w = (o1, w1)"
    by (cases "try_block env (is_readonly a (current_request env)) w")
  have fr: "tx_user w1 = tx_user w \<and> tx_readonly w1 = tx_readonly w \<and> tx_has_cursor w1 = tx_has_cursor w"
    using try_block_frame [of env "is_readonly a (current_request env)" w] tb by simp
  show ?thesis
    using fr tb
    by (simp add: wrapper_def split: sum.split prod.split option.split)
qed

lemma wrapper_Inr:
  assumes "fst (wrapper a env w) = Inr r"
  shows "\<not> need_new_transaction env w \<and> (\<exists>c. transaction_context a env w = Inr c)
     \<and> fst (try_block env (is_readonly a (current_request env)) w) = Inr r
     \<and> snd (wrapper a env w) =
         (snd (try_block env (is_readonly a (current_request env)) w))
           \<lparr>tx_tasks := [],
            submitted := submitted w @ rev (tx_tasks w @ snd (handler env (runs w)))\<rparr>"
proof -
  let ?ro = "is_readonly a (current_request env)"
  have ent: "\<not> need_new_transaction env w \<and> (\<exists>c. transaction_context a env w = Inr c)"
  proof (rule ccontr)
    assume "\<not> ?thesis"
    then have "need_new_transaction env w \<or> (\<exists>e. transaction_context a env w = Inl e)"
      by (cases "transaction_context a env w") auto
    from wrapper_not_entered [OF this] assms show False by auto
  qed
  then obtain c where c: "transaction_context a env w = Inr c" by blast
  obtain o1 w1 where tb: "try_block env ?ro w = (o1, w1)"
    by (cases "try_block env ?ro w")
  obtain d ts sub where dr: "drain (run_task_exn env) (tx_tasks w1) (submitted w1) = (d, ts, sub)"
    by (cases "drain (run_task_exn env) (tx_tasks w1) (submitted w1)")
  have fr: "submitted w1 = submitted w" "tx_tasks w1 = tx_tasks w @ snd (handler env (runs w))"
    using try_block_frame [of env ?ro w] tb by simp_all
  from assms have o1: "o1 = Inr r" and d: "d = None"
    using wrapper_entered [OF conjunct1 [OF ent] c] tb dr
    by (auto split: sum.splits option.splits)
  from drain_None [OF dr [unfolded d]] fr
  have "ts = []" "sub = submitted w @ rev (tx_tasks w @ snd (handler env (runs w)))"
    by simp_all
  then show ?thesis
    using ent wrapper_entered [OF conjunct1 [OF ent] c] tb dr o1 d by simp
qed

lemma wrapper_Inr_commits:
  assumes "fst (wrapper a env w) = Inr r"
  shows "commits (snd (wrapper a env w)) =
     commits w + (if tx_has_cursor w \<and> \<not> is_readonly a (current_request env) then 1 else 0)"
  using wrapper_Inr [OF assms]
    try_block_Inr_commits [of env "is_readonly a (current_request env)" w r]
  by simp

lemma wrapper_Inr_runs:
  assumes "fst (wrapper a env w) = Inr r"
  shows "runs (snd (wrapper a env w)) = runs w + 1"
  using wrapper_Inr [OF assms] try_block_frame [of env "is_readonly a (current_request env)" w]
  by simp

lemma wrapper_runs_le: "runs (snd (wrapper a env w)) \<le> runs w + 1"
proof (cases "need_new_transaction env w \<or> (\<exists>e. transaction_context a env w = Inl e)")
  case True
  from wrapper_not_entered [OF this] show ?thesis by simp
next
  case False
  then obtain c where nn: "\<not> need_new_transaction env w" and c: "transaction_context a env w = Inr c"
    by (cases "transaction_context a env w") auto
  let ?ro = "is_readonly a (current_request env)"
  obtain o1 w1 where tb: "try_block env ?ro w = (o1, w1)"
    by (cases "try_block env ?ro w")
  have "runs w1 = runs w + 1"
    using try_block_frame [of env ?ro w] tb by simp
  then show ?thesis
    using wrapper_entered [OF nn c] tb by (simp split: sum.split prod.split option.split)
qed

lemma transaction_context_no_conflict:
  "transaction_context a env w \<noteq> Inl DatabaseOperationalError"
  by (auto simp: transaction_context_def user_context_def merge_request_def Let_def
      conditional_transaction_for_tests_def
      split: if_splits sum.splits option.splits cval.splits)

lemma transaction_context_frame:
  "tx_user w' = tx_user w \<Longrightarrow> transaction_context a env w' = transaction_context a env w"
  by (simp add: transaction_context_def user_context_def conditional_transaction_for_tests_def
      need_new_transaction_def)

text \<open>A conflict that leaves the wrapper without coming from the task runner.\<close>

lemma wrapper_conflict:
  assumes rt: "\<forall>t. run_task_exn env t \<noteq> Some DatabaseOperationalError"
    and "fst (wrapper a env w) = Inl DatabaseOperationalError"
  shows "snd (wrapper a env w) =
       w\<lparr>runs := runs w + 1, tx_tasks := tx_tasks w @ snd (handler env (runs w))\<rparr>"
proof -
  let ?ro = "is_readonly a (current_request env)"
  have nn: "\<not> need_new_transaction env w"
    using assms(2) transaction_context_no_conflict [of a env w]
    by (auto simp: wrapper_def conditional_transaction_for_tests_def split: if_splits sum.splits)
  have "\<exists>c. transaction_context a env w = Inr c"
    using assms(2) transaction_context_no_conflict [of a env w]
    by (cases "transaction_context a env w")
      (auto simp: wrapper_def conditional_transaction_for_tests_def split: if_splits sum.splits)
  then obtain c where c: "transaction_context a env w = Inr c" by blast
  obtain o1 w1 where tb: "try_block env ?ro w = (o1, w1)"
    by (cases "try_block env ?ro w")
  obtain d ts sub where dr: "drain (run_task_exn env) (tx_tasks w1) (submitted w1) = (d, ts, sub)"
    by (cases "drain (run_task_exn env) (tx_tasks w1) (submitted w1)")
  have "d \<noteq> Some DatabaseOperationalError"
    using drain_Some [of "run_task_exn env" "tx_tasks w1" "submitted w1" DatabaseOperationalError ts sub]
      dr rt by auto
  with assms(2) have o1: "o1 = Inl DatabaseOperationalError"
    using wrapper_entered [OF nn c] tb dr
    by (auto split: sum.splits option.splits)
  have w1: "w1 = w\<lparr>runs := runs w + 1, tx_tasks := tx_tasks w @ snd (handler env (runs w))\<rparr>"
    using tb o1
    by (auto simp: try_block_def Let_def split: sum.splits option.splits if_splits)
  show ?thesis
    using wrapper_entered [OF nn c] tb o1 w1 by simp
qed

section \<open>The retry loop\<close>

lemma retry_loop_Inr: "fst (f w) = Inr r \<Longrightarrow> retry_loop f count w = f w"
  by (cases count; cases "f w") auto

lemma retry_loop_other:
  "fst (f w) = Inl e \<Longrightarrow> e \<noteq> DatabaseOperationalError \<Longrightarrow> retry_loop f count w = f w"
  by (cases count; cases "f w") auto

lemma retry_loop_readonly:
  "tx_readonly (snd (f w)) \<Longrightarrow> retry_loop f count w = f w"
  by (cases count; cases "f w") (auto split: sum.splits)

lemma retry_loop_again:
  "f w = (Inl DatabaseOperationalError, w') \<Longrightarrow> \<not> tx_readonly w' \<Longrightarrow>
   retry_loop f (Suc count) w = retry_loop f count w'"
  by simp

lemma transaction_once:
  assumes "0 \<le> database_retry env" and "retry_loop (wrapper a env) (nat (database_retry env)) w = wrapper a env w"
  shows "transaction a env w =
     (case fst (wrapper a env w) of Inl e \<Rightarrow> Inl e | Inr r \<Rightarrow> Inr (Some r), snd (wrapper a env w))"
  using assms by (cases "wrapper a env w") (simp add: transaction_def retry_transaction_def split: sum.split)

lemma transaction_readonly:
  assumes "0 \<le> database_retry env" and "tx_readonly w"
  shows "transaction a env w =
     (case fst (wrapper a env w) of Inl e \<Rightarrow> Inl e | Inr r \<Rightarrow> Inr (Some r), snd (wrapper a env w))"
proof -
  have "tx_readonly (snd (wrapper a env w))"
    using wrapper_frame [of a env w] assms(2) by simp
  from transaction_once [OF assms(1) retry_loop_readonly [where f = "wrapper a env" and w = w, OF this]]
  show ?thesis .
qed

lemma transaction_Some:
  "fst (transaction a env w) = Inr (Some r) \<Longrightarrow>
   fst (retry_loop (wrapper a env) (nat (database_retry env)) w) = Inr r
   \<and> snd (transaction a env w) = snd (retry_loop (wrapper a env) (nat (database_retry env)) w)"
  by (cases "retry_loop (wrapper a env) (nat (database_retry env)) w")
    (auto simp: transaction_def retry_transaction_def split: if_splits sum.splits)

lemma retry_loop_commits:
  assumes rt: "\<forall>t. run_task_exn env t \<noteq> Some DatabaseOperationalError"
  shows "fst (retry_loop (wrapper a env) count w) = Inr r \<Longrightarrow>
     commits (snd (retry_loop (wrapper a env) count w)) =
       commits w + (if tx_has_cursor w \<and> \<not> is_readonly a (current_request env) then 1 else 0)"
proof (induction count arbitrary: w)
  case 0
  then show ?case using wrapper_Inr_commits [of a env w r] by simp
next
  case (Suc count)
  obtain res w' where f: "wrapper a env w = (res, w')" by (cases "wrapper a env w")
  show ?case
  proof (cases res)
    case (Inr r')
    with f have "retry_loop (wrapper a env) (Suc count) w = wrapper a env w" by simp
    with Suc.prems show ?thesis using wrapper_Inr_commits [of a env w r] by simp
  next
    case (Inl e)
    with f Suc.prems have again: "e = DatabaseOperationalError" "\<not> tx_readonly w'"
      by (auto split: if_splits)
    with f Inl have loop: "retry_loop (wrapper a env) (Suc count) w = retry_loop (wrapper a env) count w'"
      by simp
    have w': "w' = w\<lparr>runs := runs w + 1, tx_tasks := tx_tasks w @ snd (handler env (runs w))\<rparr>"
      using wrapper_conflict [OF rt, of a w] f Inl again by simp
    from Suc.IH [of w'] Suc.prems loop show ?thesis by (simp add: w')
  qed
qed

lemma retry_loop_tasks:
  assumes rt: "\<forall>t. run_task_exn env t \<noteq> Some DatabaseOperationalError"
  shows "fst (retry_loop (wrapper a env) count w) = Inr r \<Longrightarrow>
     runs w < runs (snd (retry_loop (wrapper a env) count w))
     \<and> tx_tasks (snd (retry_loop (wrapper a env) count w)) = []
     \<and> submitted (snd (retry_loop (wrapper a env) count w)) =
         submitted w @
         rev (tx_tasks w @
              concat (map (\<lambda>n. snd (handler env n))
                        [runs w ..< runs (snd (retry_loop (wrapper a env) count w))]))"
proof (induction count arbitrary: w)
  case 0
  then have ok: "fst (wrapper a env w) = Inr r" by simp
  show ?case
    using wrapper_Inr [OF ok] wrapper_Inr_runs [OF ok] by simp
next
  case (Suc count)
  obtain res w' where f: "wrapper a env w = (res, w')" by (cases "wrapper a env w")
  show ?case
  proof (cases res)
    case (Inr r')
    with f have loop: "retry_loop (wrapper a env) (Suc count) w = wrapper a env w" by simp
    with Suc.prems have ok: "fst (wrapper a env w) = Inr r" by simp
    show ?thesis
      unfolding loop using wrapper_Inr [OF ok] wrapper_Inr_runs [OF ok] by simp
  next
    case (Inl e)
    with f Suc.prems have again: "e = DatabaseOperationalError" "\<not> tx_readonly w'"
      by (auto split: if_splits)
    with f Inl have loop: "retry_loop (wrapper a env) (Suc count) w = retry_loop (wrapper a env) count w'"
      by simp
    have w': "w' = w\<lparr>runs := runs w + 1, tx_tasks := tx_tasks w @ snd (handler env (runs w))\<rparr>"
      using wrapper_conflict [OF rt, of a w] f Inl again by simp
    let ?w'' = "snd (retry_loop (wrapper a env) count w')"
    from Suc.prems loop have "fst (retry_loop (wrapper a env) count w') = Inr r" by simp
    from Suc.IH [OF this]
    have ih: "runs w' < runs ?w''" "tx_tasks ?w'' = []"
      "submitted ?w'' = submitted w' @
         rev (tx_tasks w' @ concat (map (\<lambda>n. snd (handler env n)) [runs w' ..< runs ?w'']))"
      by simp_all
    have lt: "runs w < runs ?w''" using ih(1) by (simp add: w')
    have "[runs w ..< runs ?w''] = runs w # [runs w' ..< runs ?w'']"
      using lt by (simp add: w' upt_conv_Cons)
    then show ?thesis
      unfolding loop using ih lt by (simp add: w')
  qed
qed

lemma retry_loop_conflicts:
  assumes rt: "\<forall>t. run_task_exn env t = None"
  shows "\<not> need_new_transaction env w \<Longrightarrow> transaction_context a env w = Inr c \<Longrightarrow>
     \<not> tx_readonly w \<Longrightarrow>
     \<forall>i<N. fst (handler env (runs w + i)) = Inl DatabaseOperationalError \<Longrightarrow>
     fst (handler env (runs w + N)) = Inr r \<Longrightarrow>
     (tx_has_cursor w \<and> \<not> is_readonly a (current_request env) \<longrightarrow>
        commit_exn env (runs w + N) = None) \<Longrightarrow>
     N \<le> count \<Longrightarrow>
     fst (retry_loop (wrapper a env) count w) = Inr r
     \<and> runs (snd (retry_loop (wrapper a env) count w)) = runs w + N + 1"
proof (induction N arbitrary: w count)
  case 0
  let ?ro = "is_readonly a (current_request env)"
  have tb: "fst (try_block env ?ro w) = Inr r"
    using try_block_returns [of env w r ?ro] "0.prems" by simp
  obtain w1 where w1: "try_block env ?ro w = (Inr r, w1)"
    using tb by (cases "try_block env ?ro w") simp
  have "drain (run_task_exn env) (tx_tasks w1) (submitted w1) = (None, [], submitted w1 @ rev (tx_tasks w1))"
    using drain_all [of "tx_tasks w1" "run_task_exn env" "submitted w1"] rt by simp
  then have ok: "fst (wrapper a env w) = Inr r"
    using wrapper_entered [OF "0.prems"(1,2)] w1 by simp
  show ?case
    using retry_loop_Inr [where f = "wrapper a env" and w = w and count = count, OF ok]
      ok wrapper_Inr_runs [OF ok] by simp
next
  case (Suc N)
  from Suc.prems(7) obtain count' where count: "count = Suc count'" and le: "N \<le> count'"
    by (cases count) auto
  have h0: "fst (handler env (runs w)) = Inl DatabaseOperationalError"
    using Suc.prems(4) by (metis add.right_neutral zero_less_Suc)
  let ?w' = "w\<lparr>runs := runs w + 1, tx_tasks := tx_tasks w @ snd (handler env (runs w))\<rparr>"
  have f: "wrapper a env w = (Inl DatabaseOperationalError, ?w')"
    using wrapper_handler_raises [OF Suc.prems(1,2) h0] by simp
  have loop: "retry_loop (wrapper a env) count w = retry_loop (wrapper a env) count' ?w'"
    unfolding count
    using retry_loop_again [where f = "wrapper a env" and w = w, OF f] Suc.prems(3) by simp
  have nn': "\<not> need_new_transaction env ?w'"
    using Suc.prems(1) by (simp add: need_new_transaction_def)
  have c': "transaction_context a env ?w' = Inr c"
    using transaction_context_frame [of ?w' w a env] Suc.prems(2) by simp
  have fails': "\<forall>i<N. fst (handler env (runs ?w' + i)) = Inl DatabaseOperationalError"
    using Suc.prems(4) by (auto simp: less_Suc_eq_0_disj)
  have "fst (retry_loop (wrapper a env) count' ?w') = Inr r
     \<and> runs (snd (retry_loop (wrapper a env) count' ?w')) = runs ?w' + N + 1"
    using Suc.IH [OF nn' c' _ fails' _ _ le] Suc.prems(3,5,6) by simp
  then show ?case unfolding loop by simp
qed

lemma reraise_domain:
  "e = UserError m \<or> e = UserWarning m \<or> e = ConcurrencyException m \<Longrightarrow> reraise e = BadRequest m"
  by auto

lemma reraise_other:
  "\<forall>m. e \<noteq> UserError m \<and> e \<noteq> UserWarning m \<and> e \<noteq> ConcurrencyException m \<Longrightarrow> reraise e = e"
  by (cases e) auto

section \<open>The request entry of the context\<close>

lemma map_of_dict_update_request_info:
  "map_of (dict_update d (request_info r)) ''remote_addr'' = Some (opt_str (remote_addr r))
   \<and> map_of (dict_update d (request_info r)) ''http_host'' = Some (opt_str (http_host r))
   \<and> map_of (dict_update d (request_info r)) ''scheme'' = Some (VStr (scheme r))
   \<and> map_of (dict_update d (request_info r)) ''is_secure'' = Some (VBool (is_secure r))"
  by (simp add: dict_update_def request_info_def update_conv')

lemma merge_request_Some:
  assumes "merge_request (Some r) uc = Inr c"
  shows "\<exists>d. map_of c ''_request'' = Some (VDict d)
     \<and> map_of d ''remote_addr'' = Some (opt_str (remote_addr r))
     \<and> map_of d ''http_host'' = Some (opt_str (http_host r))
     \<and> map_of d ''scheme'' = Some (VStr (scheme r))
     \<and> map_of d ''is_secure'' = Some (VBool (is_secure r))"
  using assms map_of_dict_update_request_info [of _ r]
  by (auto simp: merge_request_def Let_def update_conv' split: option.splits cval.splits)

lemma merge_request_None:
  assumes "merge_request None uc = Inr c"
  shows "map_of c ''_request'' = Some (case map_of uc ''_request'' of None \<Rightarrow> VDict [] | Some v \<Rightarrow> v)"
  using assms
  by (auto simp: merge_request_def Let_def update_conv' dict_update_def split: option.splits cval.splits)

section \<open>Evaluation of the examples\<close>

lemmas model_defs =
  transaction_def retry_transaction_def wrapper_def try_block_def transaction_context_def
  user_context_def merge_request_def conditional_transaction_for_tests_def
  need_new_transaction_def context_truthy_def is_readonly_def Tryton_readonly_def
  dict_update_def request_info_def opt_str_def

lemmas example_defs =
  test_world_def test_env_def no_args_def read_write_def read_only_def post_request_def
  returns_7_def queues_1_2_def raises_def conflicts_then_7_def
  conflict_then_queue_def

section \<open>The converters on the two documented path segments\<close>

lemma str_nat_digit: "n < 10 \<Longrightarrow> str_nat n = [digit_char n]"
  by (simp add: str_nat.simps)

lemma str_nat_step: "10 \<le> n \<Longrightarrow> str_nat n = str_nat (n div 10) @ [digit_char (n mod 10)]"
  by (subst str_nat.simps) simp

text \<open>
  C7. \<^verbatim>\<open>record(<model>)\<close> parses the segment \<^verbatim>\<open>42\<close> to a reference over the single id 42
  of the model, \<^verbatim>\<open>records(<model>)\<close> parses \<^verbatim>\<open>3,5,9\<close> to a reference over the ids
  3, 5, 9 in that order, and \<^verbatim>\<open>to_url\<close> gives back the two texts.
\<close>

theorem converters_roundtrip:
  "RecordConverter_to_python m ''42'' = Some (RecordProxy m [42])
   \<and> model (RecordProxy m [42]) = m \<and> ids (RecordProxy m [42]) = [42]
   \<and> RecordConverter_to_url (RecordProxy m [42]) = Inr ''42''
   \<and> RecordsConverter_to_python m ''3,5,9'' = Some (RecordsProxy m [3, 5, 9])
   \<and> model (RecordsProxy m [3, 5, 9]) = m \<and> ids (RecordsProxy m [3, 5, 9]) = [3, 5, 9]
   \<and> RecordsConverter_to_url (RecordsProxy m [3, 5, 9]) = ''3,5,9''"
  by (simp add: RecordConverter_to_python_def RecordConverter_to_url_def
      RecordsConverter_to_python_def RecordsConverter_to_url_def
      RecordConverter_regex_def RecordsConverter_regex_def
      RecordProxy_init_def RecordsProxy_init_def proxy_iter_def
      isdigit_def digit_val_def digit_char_def int_of_digits_def py_str_def
      str_nat_digit str_nat_step)

section \<open>Retries on a database conflict\<close>

text \<open>
  C1, as the code has it. The guard of the retry is \<^verbatim>\<open>count and not Transaction().readonly\<close>:
  when the transaction is read-only, a DatabaseOperationalError that leaves the wrapper is
  raised again at its first occurrence, the wrapper having been called once; the wrapped
  call is repeated only while the transaction is not read-only.
\<close>

theorem conflict_not_retried_when_readonly:
  assumes "0 \<le> database_retry env"
  shows "(tx_readonly w \<and> fst (wrapper a env w) = Inl DatabaseOperationalError \<longrightarrow>
            transaction a env w = (Inl DatabaseOperationalError, snd (wrapper a env w)))
     \<and> (runs w + 1 < runs (snd (transaction a env w)) \<longrightarrow> \<not> tx_readonly w)"
proof (intro conjI impI)
  assume "tx_readonly w \<and> fst (wrapper a env w) = Inl DatabaseOperationalError"
  then show "transaction a env w = (Inl DatabaseOperationalError, snd (wrapper a env w))"
    using transaction_readonly [OF assms, of w a] by simp
next
  assume more: "runs w + 1 < runs (snd (transaction a env w))"
  show "\<not> tx_readonly w"
  proof
    assume "tx_readonly w"
    from transaction_readonly [OF assms this, of a]
    have "snd (transaction a env w) = snd (wrapper a env w)" by simp
    with more wrapper_runs_le [of a env w] show False by simp
  qed
qed

text \<open>
  An instance: a read-only transaction, one retry configured, and a handler that raises the
  conflict on its first execution.
\<close>

theorem conflict_not_retried_when_readonly_witness:
  "0 \<le> database_retry (test_env\<lparr>handler := conflicts_then_7 1\<rparr>)
   \<and> tx_readonly (test_world\<lparr>tx_readonly := True\<rparr>)
   \<and> fst (wrapper no_args (test_env\<lparr>handler := conflicts_then_7 1\<rparr>)
            (test_world\<lparr>tx_readonly := True\<rparr>)) = Inl DatabaseOperationalError
   \<and> transaction no_args (test_env\<lparr>handler := conflicts_then_7 1\<rparr>)
            (test_world\<lparr>tx_readonly := True\<rparr>)
       = (Inl DatabaseOperationalError,
          snd (wrapper no_args (test_env\<lparr>handler := conflicts_then_7 1\<rparr>)
            (test_world\<lparr>tx_readonly := True\<rparr>)))"
proof -
  let ?E = "test_env\<lparr>handler := conflicts_then_7 1\<rparr>"
  let ?W = "test_world\<lparr>tx_readonly := True\<rparr>"
  have r: "0 \<le> database_retry ?E" by (simp add: example_defs)
  have h: "tx_readonly ?W \<and> fst (wrapper no_args ?E ?W) = Inl DatabaseOperationalError"
    by (simp add: model_defs example_defs)
  from conflict_not_retried_when_readonly [OF r, of ?W no_args] r h show ?thesis by simp
qed

text \<open>
  The sentence with the roles exchanged (a transaction that is not read-only is never
  retried) fails: with \<^verbatim>\<open>readonly=False\<close>, a transaction that is not read-only and one
  retry, the conflict of the first execution is swallowed, the handler runs a second time
  and the call returns its result.
\<close>

theorem readwrite_conflict_is_retried:
  "\<not> tx_readonly test_world
   \<and> \<not> is_readonly read_write (current_request (test_env\<lparr>handler := conflicts_then_7 1\<rparr>))
   \<and> fst (wrapper read_write (test_env\<lparr>handler := conflicts_then_7 1\<rparr>) test_world)
       = Inl DatabaseOperationalError
   \<and> fst (transaction read_write (test_env\<lparr>handler := conflicts_then_7 1\<rparr>) test_world)
       = Inr (Some 7)
   \<and> runs (snd (transaction read_write (test_env\<lparr>handler := conflicts_then_7 1\<rparr>) test_world)) = 2"
  by (simp add: model_defs example_defs drain.simps)

text \<open>
  C3, as the code has it. The transaction is not read-only, the handler raises the conflict
  on its first \<open>N\<close> executions and returns \<open>r\<close> on the next one, the commit of that
  execution and the task runner raise nothing, and the configured retry count is at least
  \<open>N\<close>: the wrapped call returns \<open>r\<close> and the handler body has run exactly \<open>N + 1\<close> times.
\<close>

theorem conflicts_retried_when_not_readonly:
  assumes "\<not> need_new_transaction env w" and "transaction_context a env w = Inr c"
    and "\<not> tx_readonly w"
    and "\<forall>i<N. fst (handler env (runs w + i)) = Inl DatabaseOperationalError"
    and "fst (handler env (runs w + N)) = Inr r"
    and "tx_has_cursor w \<and> \<not> is_readonly a (current_request env) \<longrightarrow>
           commit_exn env (runs w + N) = None"
    and "\<forall>t. run_task_exn env t = None"
    and "int N \<le> database_retry env"
  shows "fst (transaction a env w) = Inr (Some r)
     \<and> runs (snd (transaction a env w)) = runs w + N + 1"
proof -
  have le: "N \<le> nat (database_retry env)" and nonneg: "\<not> database_retry env < 0"
    using assms(8) by simp_all
  from retry_loop_conflicts [OF assms(7) assms(1) assms(2) assms(3) assms(4) assms(5) assms(6) le]
  show ?thesis
    using nonneg
    by (cases "retry_loop (wrapper a env) (nat (database_retry env)) w")
      (simp add: transaction_def retry_transaction_def)
qed

text \<open>
  An instance: two conflicts, then the result 7, with three retries configured.
\<close>

theorem conflicts_retried_when_not_readonly_witness:
  "\<not> tx_readonly test_world
   \<and> fst (conflicts_then_7 2 0) = Inl DatabaseOperationalError
   \<and> fst (conflicts_then_7 2 1) = Inl DatabaseOperationalError
   \<and> fst (conflicts_then_7 2 2) = Inr 7
   \<and> 2 \<le> database_retry (test_env\<lparr>handler := conflicts_then_7 2, database_retry := 3\<rparr>)
   \<and> fst (transaction read_write (test_env\<lparr>handler := conflicts_then_7 2, database_retry := 3\<rparr>)
            test_world) = Inr (Some 7)
   \<and> runs (snd (transaction read_write
            (test_env\<lparr>handler := conflicts_then_7 2, database_retry := 3\<rparr>) test_world)) = 3"
proof -
  let ?E = "test_env\<lparr>handler := conflicts_then_7 2, database_retry := 3\<rparr>"
  have 1: "\<not> need_new_transaction ?E test_world" by (simp add: model_defs example_defs)
  have 2: "transaction_context read_write ?E test_world = Inr [(''_request'', VDict [])]"
    by (simp add: model_defs example_defs)
  have 3: "\<not> tx_readonly test_world" by (simp add: example_defs)
  have 4: "\<forall>i<2. fst (handler ?E (runs test_world + i)) = Inl DatabaseOperationalError"
    by (simp add: example_defs)
  have 5: "fst (handler ?E (runs test_world + 2)) = Inr 7" by (simp add: example_defs)
  have 6: "tx_has_cursor test_world \<and> \<not> is_readonly read_write (current_request ?E) \<longrightarrow>
      commit_exn ?E (runs test_world + 2) = None"
    by (simp add: example_defs)
  have 7: "\<forall>t. run_task_exn ?E t = None" by (simp add: example_defs)
  have 8: "int 2 \<le> database_retry ?E" by (simp add: example_defs)
  from conflicts_retried_when_not_readonly [OF 1 2 3 4 5 6 7 8]
  show ?thesis by (simp add: example_defs)
qed

text \<open>
  With a read-only transaction the same does not hold: one conflict then success, one
  retry configured, and the call raises the conflict after a single execution.
\<close>

theorem readonly_conflict_surfaces:
  "tx_readonly (test_world\<lparr>tx_readonly := True\<rparr>)
   \<and> is_readonly read_only (current_request (test_env\<lparr>handler := conflicts_then_7 1\<rparr>))
   \<and> 1 \<le> database_retry (test_env\<lparr>handler := conflicts_then_7 1\<rparr>)
   \<and> fst (conflicts_then_7 1 0) = Inl DatabaseOperationalError
   \<and> fst (conflicts_then_7 1 1) = Inr 7
   \<and> fst (transaction read_only (test_env\<lparr>handler := conflicts_then_7 1\<rparr>)
            (test_world\<lparr>tx_readonly := True\<rparr>)) = Inl DatabaseOperationalError
   \<and> runs (snd (transaction read_only (test_env\<lparr>handler := conflicts_then_7 1\<rparr>)
            (test_world\<lparr>tx_readonly := True\<rparr>))) = 1"
  by (simp add: model_defs example_defs drain.simps)

section \<open>Errors of the handler\<close>

text \<open>
  C4. When the handler raises a UserError, a UserWarning or a ConcurrencyException with
  message \<open>m\<close>, the wrapper raises \<^verbatim>\<open>BadRequest\<close> with the message \<open>m\<close>, not the original
  error, and no commit is made; \<^verbatim>\<open>retry_transaction\<close> lets the \<^verbatim>\<open>BadRequest\<close> through.
\<close>

theorem domain_error_is_bad_request:
  assumes entered: "\<not> need_new_transaction env w" "transaction_context a env w = Inr c"
    and raised: "fst (handler env (runs w)) = Inl e"
    and domain: "e = UserError m \<or> e = UserWarning m \<or> e = ConcurrencyException m"
  shows "fst (wrapper a env w) = Inl (BadRequest m)
     \<and> fst (wrapper a env w) \<noteq> Inl e
     \<and> commits (snd (wrapper a env w)) = commits w
     \<and> (0 \<le> database_retry env \<longrightarrow>
          fst (transaction a env w) = Inl (BadRequest m)
          \<and> commits (snd (transaction a env w)) = commits w)"
proof -
  have w: "wrapper a env w =
      (Inl (BadRequest m), w\<lparr>runs := runs w + 1, tx_tasks := tx_tasks w @ snd (handler env (runs w))\<rparr>)"
    using wrapper_handler_raises [OF entered raised] reraise_domain [OF domain] by simp
  have ne: "Inl (BadRequest m) \<noteq> (Inl e :: exn + 'a)"
    using domain by auto
  have loop: "retry_loop (wrapper a env) (nat (database_retry env)) w = wrapper a env w"
    by (rule retry_loop_other [where e = "BadRequest m"]) (simp_all add: w)
  show ?thesis
    using w ne transaction_once [OF _ loop] by simp
qed

text \<open>
  An instance: the handler raises \<^verbatim>\<open>UserError('bad')\<close>.
\<close>

theorem domain_error_is_bad_request_witness:
  "fst (raises (UserError ''bad'') 0) = Inl (UserError ''bad'')
   \<and> fst (wrapper read_write (test_env\<lparr>handler := raises (UserError ''bad'')\<rparr>) test_world)
       = Inl (BadRequest ''bad'')
   \<and> commits (snd (wrapper read_write (test_env\<lparr>handler := raises (UserError ''bad'')\<rparr>) test_world))
       = commits test_world
   \<and> fst (transaction read_write (test_env\<lparr>handler := raises (UserError ''bad'')\<rparr>) test_world)
       = Inl (BadRequest ''bad'')"
proof -
  let ?E = "test_env\<lparr>handler := raises (UserError ''bad'')\<rparr>"
  have 1: "\<not> need_new_transaction ?E test_world" by (simp add: model_defs example_defs)
  have 2: "transaction_context read_write ?E test_world = Inr [(''_request'', VDict [])]"
    by (simp add: model_defs example_defs)
  have 3: "fst (handler ?E (runs test_world)) = Inl (UserError ''bad'')"
    by (simp add: example_defs)
  have 4: "UserError ''bad'' = UserError ''bad'' \<or> UserError ''bad'' = UserWarning ''bad''
      \<or> UserError ''bad'' = ConcurrencyException ''bad''" by simp
  have 5: "0 \<le> database_retry ?E" by (simp add: example_defs)
  from domain_error_is_bad_request [OF 1 2 3 4] 5
  show ?thesis by (simp add: example_defs)
qed

text \<open>
  C9. When the handler raises an exception that is none of the three domain errors, the
  wrapper raises that same exception and makes no commit; unless it is a database conflict,
  \<^verbatim>\<open>retry_transaction\<close> raises it unchanged as well.
\<close>

theorem other_error_propagates:
  assumes entered: "\<not> need_new_transaction env w" "transaction_context a env w = Inr c"
    and raised: "fst (handler env (runs w)) = Inl e"
    and other: "\<forall>m. e \<noteq> UserError m \<and> e \<noteq> UserWarning m \<and> e \<noteq> ConcurrencyException m"
  shows "fst (wrapper a env w) = Inl e
     \<and> commits (snd (wrapper a env w)) = commits w
     \<and> (0 \<le> database_retry env \<and> e \<noteq> DatabaseOperationalError \<longrightarrow>
          fst (transaction a env w) = Inl e
          \<and> commits (snd (transaction a env w)) = commits w)"
proof -
  have w: "wrapper a env w =
      (Inl e, w\<lparr>runs := runs w + 1, tx_tasks := tx_tasks w @ snd (handler env (runs w))\<rparr>)"
    using wrapper_handler_raises [OF entered raised] reraise_other [OF other] by simp
  have loop: "e \<noteq> DatabaseOperationalError \<Longrightarrow>
      retry_loop (wrapper a env) (nat (database_retry env)) w = wrapper a env w"
    by (rule retry_loop_other [where e = e]) (simp_all add: w)
  show ?thesis
    using w transaction_once [OF _ loop] by simp
qed

text \<open>
  An instance: the handler raises the exception number 3.
\<close>

theorem other_error_propagates_witness:
  "fst (raises (OtherError 3) 0) = Inl (OtherError 3)
   \<and> fst (wrapper read_write (test_env\<lparr>handler := raises (OtherError 3)\<rparr>) test_world)
       = Inl (OtherError 3)
   \<and> commits (snd (wrapper read_write (test_env\<lparr>handler := raises (OtherError 3)\<rparr>) test_world))
       = commits test_world
   \<and> fst (transaction read_write (test_env\<lparr>handler := raises (OtherError 3)\<rparr>) test_world)
       = Inl (OtherError 3)"
proof -
  let ?E = "test_env\<lparr>handler := raises (OtherError 3)\<rparr>"
  have 1: "\<not> need_new_transaction ?E test_world" by (simp add: model_defs example_defs)
  have 2: "transaction_context read_write ?E test_world = Inr [(''_request'', VDict [])]"
    by (simp add: model_defs example_defs)
  have 3: "fst (handler ?E (runs test_world)) = Inl (OtherError 3)"
    by (simp add: example_defs)
  have 4: "\<forall>m. OtherError 3 \<noteq> UserError m \<and> OtherError 3 \<noteq> UserWarning m
      \<and> OtherError 3 \<noteq> ConcurrencyException m" by simp
  have 5: "0 \<le> database_retry ?E \<and> OtherError 3 \<noteq> DatabaseOperationalError"
    by (simp add: example_defs)
  from other_error_propagates [OF 1 2 3 4] 5
  show ?thesis by (simp add: example_defs)
qed

section \<open>Commit and background tasks\<close>

text \<open>
  C5, as the code has it. The commit is guarded by
  \<^verbatim>\<open>hasattr(transaction, 'cursor') and not is_readonly\<close>: a call of the wrapper that returns
  has made exactly one commit when the transaction has a cursor and is not read-only, and
  none otherwise. The same count holds for the whole retried call when the task runner
  raises no database conflict.
\<close>

theorem commit_once_when_cursor:
  "(fst (wrapper a env w) = Inr r \<longrightarrow>
      commits (snd (wrapper a env w)) =
        commits w + (if tx_has_cursor w \<and> \<not> is_readonly a (current_request env) then 1 else 0))
   \<and> ((\<forall>t. run_task_exn env t \<noteq> Some DatabaseOperationalError)
        \<and> fst (transaction a env w) = Inr (Some r) \<longrightarrow>
      commits (snd (transaction a env w)) =
        commits w + (if tx_has_cursor w \<and> \<not> is_readonly a (current_request env) then 1 else 0))"
  using wrapper_Inr_commits [of a env w r] transaction_Some [of a env w r]
    retry_loop_commits [of env a "nat (database_retry env)" w r]
  by simp

text \<open>
  An instance: a read-write transaction with a cursor is committed once.
\<close>

theorem commit_once_when_cursor_witness:
  "tx_has_cursor test_world
   \<and> \<not> is_readonly read_write (current_request test_env)
   \<and> fst (wrapper read_write test_env test_world) = Inr 7
   \<and> commits (snd (wrapper read_write test_env test_world)) = commits test_world + 1
   \<and> fst (transaction read_write test_env test_world) = Inr (Some 7)
   \<and> commits (snd (transaction read_write test_env test_world)) = commits test_world + 1"
proof -
  have a: "fst (wrapper read_write test_env test_world) = Inr 7"
    by (simp add: model_defs example_defs drain.simps)
  have b: "(\<forall>t. run_task_exn test_env t \<noteq> Some DatabaseOperationalError)
      \<and> fst (transaction read_write test_env test_world) = Inr (Some 7)"
    by (simp add: model_defs example_defs drain.simps)
  have c: "tx_has_cursor test_world \<and> \<not> is_readonly read_write (current_request test_env)"
    by (simp add: model_defs example_defs)
  from commit_once_when_cursor [of read_write test_env test_world 7] a b c
  show ?thesis by simp
qed

text \<open>
  Without the guard on the cursor the statement fails: a read-write call on a transaction
  that has no \<^verbatim>\<open>cursor\<close> attribute returns its result and the wrapper has made no commit.
\<close>

theorem no_commit_without_cursor:
  "\<not> is_readonly read_write (current_request test_env)
   \<and> fst (transaction read_write test_env (test_world\<lparr>tx_has_cursor := False\<rparr>)) = Inr (Some 7)
   \<and> commits (snd (transaction read_write test_env (test_world\<lparr>tx_has_cursor := False\<rparr>)))
       = commits (test_world\<lparr>tx_has_cursor := False\<rparr>)"
  by (simp add: model_defs example_defs drain.simps)

text \<open>
  C2, as the code has it. \<^verbatim>\<open>transaction.tasks.pop()\<close> takes the last element: when the
  wrapper returns, every task of the queue (those pending before the call, then those the
  handler queued) has been handed to \<^verbatim>\<open>run_task\<close> exactly once, the last queued first, and
  the queue is empty. For the whole retried call the queue is the one built up by all the
  executions of the handler, provided the task runner raises no database conflict.
\<close>

theorem tasks_submitted_last_first:
  "(fst (wrapper a env w) = Inr r \<longrightarrow>
      submitted (snd (wrapper a env w)) =
        submitted w @ rev (tx_tasks w @ snd (handler env (runs w)))
      \<and> tx_tasks (snd (wrapper a env w)) = [])
   \<and> ((\<forall>t. run_task_exn env t \<noteq> Some DatabaseOperationalError)
        \<and> fst (transaction a env w) = Inr (Some r) \<longrightarrow>
      submitted (snd (transaction a env w)) =
        submitted w @
        rev (tx_tasks w @
             concat (map (\<lambda>n. snd (handler env n)) [runs w ..< runs (snd (transaction a env w))]))
      \<and> tx_tasks (snd (transaction a env w)) = [])"
proof (intro conjI impI)
  assume ok: "fst (wrapper a env w) = Inr r"
  from wrapper_Inr [OF ok]
  show "submitted (snd (wrapper a env w)) =
        submitted w @ rev (tx_tasks w @ snd (handler env (runs w)))"
    and "tx_tasks (snd (wrapper a env w)) = []"
    by simp_all
next
  assume h: "(\<forall>t. run_task_exn env t \<noteq> Some DatabaseOperationalError)
        \<and> fst (transaction a env w) = Inr (Some r)"
  from transaction_Some [of a env w r] h
  have l: "fst (retry_loop (wrapper a env) (nat (database_retry env)) w) = Inr r"
    and s: "snd (transaction a env w) = snd (retry_loop (wrapper a env) (nat (database_retry env)) w)"
    by simp_all
  from retry_loop_tasks [OF conjunct1 [OF h] l]
  show "submitted (snd (transaction a env w)) =
        submitted w @
        rev (tx_tasks w @
             concat (map (\<lambda>n. snd (handler env n)) [runs w ..< runs (snd (transaction a env w))]))"
    and "tx_tasks (snd (transaction a env w)) = []"
    unfolding s by simp_all
qed

text \<open>
  Two instances: one task pending and two queued by the handler; and a first execution that
  queues task 1 and raises a conflict, followed by one that queues 2 and 3 and returns.
\<close>

theorem tasks_submitted_last_first_witness:
  "fst (wrapper read_write (test_env\<lparr>handler := queues_1_2\<rparr>) (test_world\<lparr>tx_tasks := [9]\<rparr>)) = Inr 7
   \<and> submitted (snd (wrapper read_write (test_env\<lparr>handler := queues_1_2\<rparr>)
        (test_world\<lparr>tx_tasks := [9]\<rparr>))) = [2, 1, 9]
   \<and> tx_tasks (snd (wrapper read_write (test_env\<lparr>handler := queues_1_2\<rparr>)
        (test_world\<lparr>tx_tasks := [9]\<rparr>))) = []
   \<and> fst (transaction read_write (test_env\<lparr>handler := conflict_then_queue\<rparr>)
        (test_world\<lparr>tx_tasks := [9]\<rparr>)) = Inr (Some 7)
   \<and> submitted (snd (transaction read_write (test_env\<lparr>handler := conflict_then_queue\<rparr>)
        (test_world\<lparr>tx_tasks := [9]\<rparr>))) = [3, 2, 1, 9]"
proof -
  let ?W = "test_world\<lparr>tx_tasks := [9]\<rparr>"
  let ?E = "test_env\<lparr>handler := queues_1_2\<rparr>"
  let ?F = "test_env\<lparr>handler := conflict_then_queue\<rparr>"
  have a: "fst (wrapper read_write ?E ?W) = Inr 7"
    by (simp add: model_defs example_defs drain.simps)
  have b: "(\<forall>t. run_task_exn ?F t \<noteq> Some DatabaseOperationalError)
      \<and> fst (transaction read_write ?F ?W) = Inr (Some 7)"
    by (simp add: model_defs example_defs drain.simps)
  have c: "runs (snd (transaction read_write ?F ?W)) = 2"
    by (simp add: model_defs example_defs drain.simps)
  have d: "[0..<2] = [0, Suc 0]" by (simp add: upt_rec)
  from tasks_submitted_last_first [of read_write ?E ?W 7] a
  have "submitted (snd (wrapper read_write ?E ?W)) = [2, 1, 9]"
    and "tx_tasks (snd (wrapper read_write ?E ?W)) = []"
    by (simp_all add: example_defs)
  moreover from tasks_submitted_last_first [of read_write ?F ?W 7] b
  have "submitted (snd (transaction read_write ?F ?W)) = [3, 2, 1, 9]"
    unfolding c by (simp add: example_defs d)
  ultimately show ?thesis using a b by simp
qed

text \<open>
  The order of queueing is not the order of submission: the handler queues 1 then 2, and
  \<^verbatim>\<open>run_task\<close> receives 2 then 1.
\<close>

theorem tasks_not_in_queue_order:
  "fst (transaction read_write (test_env\<lparr>handler := queues_1_2\<rparr>) test_world) = Inr (Some 7)
   \<and> snd (queues_1_2 0) = [1, 2]
   \<and> submitted (snd (transaction read_write (test_env\<lparr>handler := queues_1_2\<rparr>) test_world)) = [2, 1]
   \<and> submitted (snd (transaction read_write (test_env\<lparr>handler := queues_1_2\<rparr>) test_world))
       \<noteq> snd (queues_1_2 0)"
  by (simp add: model_defs example_defs drain.simps)

text \<open>
  C6, as the code has it. The queue is drained after the \<^verbatim>\<open>with\<close> block, whether or not a
  commit was made: when the handler raises, or the commit that the wrapper makes raises,
  the wrapper raises and hands no task to \<^verbatim>\<open>run_task\<close>.
\<close>

theorem no_drain_unless_handler_and_commit_succeed:
  assumes "(\<exists>e. fst (handler env (runs w)) = Inl e)
      \<or> (tx_has_cursor w \<and> \<not> is_readonly a (current_request env)
          \<and> (\<exists>e. commit_exn env (runs w) = Some e))"
  shows "submitted (snd (wrapper a env w)) = submitted w
     \<and> (\<exists>e. fst (wrapper a env w) = Inl e)"
proof (cases "need_new_transaction env w \<or> (\<exists>e. transaction_context a env w = Inl e)")
  case True
  from wrapper_not_entered [OF this] show ?thesis by simp
next
  case False
  then obtain c where nn: "\<not> need_new_transaction env w" and c: "transaction_context a env w = Inr c"
    by (cases "transaction_context a env w") auto
  let ?ro = "is_readonly a (current_request env)"
  from try_block_fails [OF assms] obtain e where e: "fst (try_block env ?ro w) = Inl e" by blast
  obtain w1 where tb: "try_block env ?ro w = (Inl e, w1)"
    using e by (cases "try_block env ?ro w") simp
  have "submitted w1 = submitted w"
    using try_block_frame [of env ?ro w] tb by simp
  then show ?thesis
    using wrapper_entered [OF nn c] tb by simp
qed

text \<open>
  An instance: one task is pending and the handler raises.
\<close>

theorem no_drain_witness:
  "fst (raises (OtherError 3) 0) = Inl (OtherError 3)
   \<and> tx_tasks (test_world\<lparr>tx_tasks := [4]\<rparr>) = [4]
   \<and> submitted (snd (wrapper read_write (test_env\<lparr>handler := raises (OtherError 3)\<rparr>)
        (test_world\<lparr>tx_tasks := [4]\<rparr>))) = submitted (test_world\<lparr>tx_tasks := [4]\<rparr>)"
proof -
  let ?E = "test_env\<lparr>handler := raises (OtherError 3)\<rparr>"
  let ?W = "test_world\<lparr>tx_tasks := [4]\<rparr>"
  have h: "(\<exists>e. fst (handler ?E (runs ?W)) = Inl e)
      \<or> (tx_has_cursor ?W \<and> \<not> is_readonly read_write (current_request ?E)
          \<and> (\<exists>e. commit_exn ?E (runs ?W) = Some e))"
    by (simp add: example_defs)
  from no_drain_unless_handler_and_commit_succeed [OF h]
  show ?thesis by (simp add: example_defs)
qed

text \<open>
  A call without commit still drains the queue: with \<^verbatim>\<open>readonly=True\<close> the wrapper makes
  no commit, and the two tasks that the handler queued are handed to \<^verbatim>\<open>run_task\<close>.
\<close>

theorem readonly_drains_without_commit:
  "is_readonly read_only (current_request (test_env\<lparr>handler := queues_1_2\<rparr>))
   \<and> fst (wrapper read_only (test_env\<lparr>handler := queues_1_2\<rparr>) test_world) = Inr 7
   \<and> commits (snd (wrapper read_only (test_env\<lparr>handler := queues_1_2\<rparr>) test_world)) = commits test_world
   \<and> submitted test_world = []
   \<and> submitted (snd (wrapper read_only (test_env\<lparr>handler := queues_1_2\<rparr>) test_world)) = [2, 1]"
  by (simp add: model_defs example_defs drain.simps)

section \<open>The context and the read-only default\<close>

text \<open>
  C8, as the code has it. Whenever the context is built: with a request, its
  \<^verbatim>\<open>_request\<close> entry is a dict that holds the request's remote address, HTTP host, scheme
  and is-secure flag; without a request, \<^verbatim>\<open>setdefault\<close> leaves the entry that the context
  callback or the \<^verbatim>\<open>context\<close> argument supplied, and the entry is the empty dict when they
  supplied none (in particular when there is neither callback nor argument).
\<close>

theorem request_entry_of_context:
  assumes "transaction_context a env w = Inr c"
  shows "(\<forall>rq. current_request env = Some rq \<longrightarrow>
            (\<exists>d. map_of c ''_request'' = Some (VDict d)
               \<and> map_of d ''remote_addr'' = Some (opt_str (remote_addr rq))
               \<and> map_of d ''http_host'' = Some (opt_str (http_host rq))
               \<and> map_of d ''scheme'' = Some (VStr (scheme rq))
               \<and> map_of d ''is_secure'' = Some (VBool (is_secure rq))))
     \<and> (current_request env = None \<longrightarrow>
            (\<exists>uc. user_context a env w = Inr uc
               \<and> map_of c ''_request'' =
                   Some (case map_of uc ''_request'' of None \<Rightarrow> VDict [] | Some v \<Rightarrow> v)))
     \<and> (current_request env = None \<and> context_callback env = None \<and> context a = None \<longrightarrow>
            map_of c ''_request'' = Some (VDict []))"
proof -
  from assms obtain uc where uc: "user_context a env w = Inr uc"
    and m: "merge_request (current_request env) uc = Inr c"
    by (auto simp: transaction_context_def split: sum.splits)
  have none: "context_callback env = None \<and> context a = None \<Longrightarrow> uc = []"
    using uc by (simp add: user_context_def context_truthy_def)
  show ?thesis
    using uc m merge_request_Some [of _ uc c] merge_request_None [of uc c] none
    by auto
qed

text \<open>
  Two instances: a POST request with the decorator's defaults, and no request.
\<close>

theorem request_entry_of_context_witness:
  "transaction_context no_args (test_env\<lparr>current_request := Some post_request\<rparr>) test_world
     = Inr [(''_request'', VDict (request_info post_request))]
   \<and> map_of (request_info post_request) ''remote_addr'' = Some (VStr ''10.0.0.1'')
   \<and> map_of (request_info post_request) ''http_host'' = Some (VStr ''example.org'')
   \<and> map_of (request_info post_request) ''scheme'' = Some (VStr ''https'')
   \<and> map_of (request_info post_request) ''is_secure'' = Some (VBool True)
   \<and> transaction_context no_args test_env test_world = Inr [(''_request'', VDict [])]"
proof -
  let ?E = "test_env\<lparr>current_request := Some post_request\<rparr>"
  have a: "transaction_context no_args ?E test_world
      = Inr [(''_request'', VDict (request_info post_request))]"
    by (simp add: model_defs example_defs)
  have b: "current_request ?E = Some post_request" by (simp add: example_defs)
  have c: "transaction_context no_args test_env test_world = Inr [(''_request'', VDict [])]"
    by (simp add: model_defs example_defs)
  have d: "current_request test_env = None \<and> context_callback test_env = None
      \<and> context no_args = None" by (simp add: example_defs)
  from request_entry_of_context [OF a] b
  have "map_of (request_info post_request) ''remote_addr'' = Some (VStr ''10.0.0.1'')
   \<and> map_of (request_info post_request) ''http_host'' = Some (VStr ''example.org'')
   \<and> map_of (request_info post_request) ''scheme'' = Some (VStr ''https'')
   \<and> map_of (request_info post_request) ''is_secure'' = Some (VBool True)"
    by (simp add: opt_str_def post_request_def)
  moreover from request_entry_of_context [OF c] d
  have "map_of [(''_request'', VDict [])] ''_request'' = Some (VDict [])" by simp
  ultimately show ?thesis using a c by simp
qed

text \<open>
  Without a request the entry need not be absent or empty: a \<^verbatim>\<open>context\<close> argument that
  holds a \<^verbatim>\<open>_request\<close> entry keeps it.
\<close>

theorem supplied_request_entry_kept:
  "current_request test_env = None
   \<and> transaction_context
        (no_args\<lparr>context := Some (Literal [(''_request'', VDict [(''k'', VStr ''v'')])])\<rparr>)
        test_env test_world
       = Inr [(''_request'', VDict [(''k'', VStr ''v'')])]
   \<and> map_of [(''_request'', VDict [(''k'', VStr ''v'')])] ''_request''
       = Some (VDict [(''k'', VStr ''v'')])"
  by (simp add: model_defs example_defs)

text \<open>
  The flag \<^verbatim>\<open>is_readonly\<close> that the wrapper computes for \<^verbatim>\<open>readonly=None\<close> is true
  exactly when there is no current request or the request's method is none of PUT, POST,
  DELETE and PATCH.
\<close>

lemma is_readonly_default:
  "is_readonly (a\<lparr>readonly := None\<rparr>) rq =
     (rq = None \<or> (\<exists>r. rq = Some r \<and> method r \<notin> set [''PUT'', ''POST'', ''DELETE'', ''PATCH'']))"
  by (cases rq) (simp_all add: is_readonly_def Tryton_readonly_def)

text \<open>
  C10. The docstring of \<^verbatim>\<open>Tryton.transaction\<close> says that with \<^verbatim>\<open>readonly=None\<close> the
  transaction is read-only except for the methods PUT, POST, DELETE and PATCH, and the
  wrapper passes \<^verbatim>\<open>readonly=is_readonly\<close> to the scope. The scope does not use it, and the
  code does not do what the docstring says:
  \<^item> a POST request outside test mode: the flag is false, a read-write transaction is due;
    the scope evaluates \<^verbatim>\<open>Transaction().start(database, user, readonly=True)\<close>, the call
    raises a NameError and the handler never runs;
  \<^item> no request, in test mode: the flag is true, a read-only transaction is due; the
    handler runs in the running transaction, which is read-write and stays so, and its
    conflict is retried as the conflict of a read-write transaction is.
\<close>

theorem readonly_flag_not_applied:
  "\<not> is_readonly no_args (current_request
        (test_env\<lparr>testing_flask := False, current_request := Some post_request\<rparr>))
   \<and> wrapper no_args (test_env\<lparr>testing_flask := False, current_request := Some post_request\<rparr>)
        test_world = (Inl (NameError ''database''), test_world)
   \<and> runs (snd (transaction no_args
        (test_env\<lparr>testing_flask := False, current_request := Some post_request\<rparr>) test_world)) = 0
   \<and> is_readonly no_args (current_request (test_env\<lparr>handler := conflicts_then_7 1\<rparr>))
   \<and> \<not> tx_readonly test_world
   \<and> fst (transaction no_args (test_env\<lparr>handler := conflicts_then_7 1\<rparr>) test_world)
       = Inr (Some 7)
   \<and> runs (snd (transaction no_args (test_env\<lparr>handler := conflicts_then_7 1\<rparr>) test_world)) = 2
   \<and> \<not> tx_readonly (snd (transaction no_args (test_env\<lparr>handler := conflicts_then_7 1\<rparr>)
        test_world))"
  by (simp add: model_defs example_defs drain.simps)

end
